theory Spec2Isabelle
  imports Complex_Main "HOL-Library.Log_Nat"
begin

section \<open>The catto interpreter: data model\<close>

text \<open>
  The program is \<^verbatim>\<open>src/catto.py\<close>, an interpreter for a concatenative language over a
  stack of strings. Python strings are modelled as \<^typ>\<open>string\<close>: a character is a code
  point below 256. Python exceptions are values of the type \<open>error\<close>; a function of the
  source that can raise returns \<open>error + 'a\<close>, with \<open>Inl\<close> for the exception.
\<close>

datatype error =
    ValueError
  | TypeError
  | IndexError
  | ZeroDivisionError
  | OverflowError
  | UnicodeDecodeError
  | NotImplementedError
  | RecursionError

datatype WordType = STRING | DEFINE | CALL

record Word =
  word_type :: WordType
  word_value :: string

text \<open>
  \<^verbatim>\<open>class Stack\<close> has the single field \<^verbatim>\<open>value: list[str]\<close>; \<^verbatim>\<open>push\<close> appends and
  \<^verbatim>\<open>pop\<close> removes at the end of the list, so the last element of the list is the top.
\<close>

type_synonym Stack = "string list"

definition push :: "string \<Rightarrow> Stack \<Rightarrow> Stack" where
  "push item s = s @ [item]"

definition pop :: "Stack \<Rightarrow> string \<times> Stack" where
  "pop s = (if length s \<le> 0 then ('''', s) else (last s, butlast s))"

section \<open>Stack builtins\<close>

definition builtinDrop :: "Stack \<Rightarrow> error + Stack" where
  "builtinDrop s = (let (_, s1) = pop s in Inr s1)"

definition builtinDupe :: "Stack \<Rightarrow> error + Stack" where
  "builtinDupe s = (let (item, s1) = pop s in Inr (push item (push item s1)))"

definition builtinSwap :: "Stack \<Rightarrow> error + Stack" where
  "builtinSwap s =
     (let (a, s1) = pop s; (b, s2) = pop s1 in Inr (push b (push a s2)))"

text \<open>\<^verbatim>\<open>[stack.pop() for _ in range(n)]\<close>: the values popped, first popped first.\<close>

fun pop_n :: "nat \<Rightarrow> Stack \<Rightarrow> string list \<times> Stack" where
  "pop_n 0 s = ([], s)"
| "pop_n (Suc k) s =
     (let (x, s1) = pop s; (xs, s2) = pop_n k s1 in (x # xs, s2))"

text \<open>\<^verbatim>\<open>[stack.push(item) for item in items]\<close>.\<close>

definition push_all :: "string list \<Rightarrow> Stack \<Rightarrow> Stack" where
  "push_all items s = foldl (\<lambda>acc item. push item acc) s items"

text \<open>
  \<^verbatim>\<open>createRotBuiltin(n)\<close>. \<^verbatim>\<open>values[-1]\<close> raises IndexError on the empty list, which
  is what \<open>n = 0\<close> gives; the table only registers \<open>n = 3..9\<close>.
\<close>

definition createRotBuiltin :: "nat \<Rightarrow> Stack \<Rightarrow> error + Stack" where
  "createRotBuiltin n s =
     (let (values, s1) = pop_n n s in
      if values = [] then Inl IndexError
      else Inr (push_all (rev (last values # butlast values)) s1))"

section \<open>The host's conversions between strings and numbers\<close>

text \<open>
  \<^verbatim>\<open>int(s)\<close> and \<^verbatim>\<open>float(s)\<close> strip the white space of the host (for code points
  below 256: 9 to 13, 32, 133 and 160) at both ends.
\<close>

definition is_space :: "char \<Rightarrow> bool" where
  "is_space c = ((of_char c :: nat) \<in> {9, 10, 11, 12, 13, 32, 133, 160})"

definition strip :: "string \<Rightarrow> string" where
  "strip s = rev (dropWhile is_space (rev (dropWhile is_space s)))"

definition is_digit :: "char \<Rightarrow> bool" where
  "is_digit c = (48 \<le> (of_char c :: nat) \<and> (of_char c :: nat) \<le> 57)"

definition digit_val :: "char \<Rightarrow> nat" where
  "digit_val c = of_char c - 48"

text \<open>
  The host's \<^verbatim>\<open>digitpart\<close>: one or more digits, with single underscores allowed
  between two digits. The result is the list of the digits' values.
\<close>

fun digitpart :: "string \<Rightarrow> nat list option" where
  "digitpart [] = None"
| "digitpart [c] = (if is_digit c then Some [digit_val c] else None)"
| "digitpart (c # d # cs) =
     (if \<not> is_digit c then None
      else if d = CHR ''_'' then map_option ((#) (digit_val c)) (digitpart cs)
      else map_option ((#) (digit_val c)) (digitpart (d # cs)))"

definition nat_of_digits :: "nat list \<Rightarrow> nat" where
  "nat_of_digits ds = foldl (\<lambda>a d. 10 * a + d) 0 ds"

text \<open>An optional sign: whether it is a minus, and the rest of the string.\<close>

fun split_sign :: "string \<Rightarrow> bool \<times> string" where
  "split_sign [] = (False, [])"
| "split_sign (c # cs) =
     (if c = CHR ''-'' then (True, cs)
      else if c = CHR ''+'' then (False, cs)
      else (False, c # cs))"

text \<open>\<^verbatim>\<open>int(s)\<close> in base ten; the integers of the host are unbounded.\<close>

definition int_of_str :: "string \<Rightarrow> error + int" where
  "int_of_str s =
     (let (neg, body) = split_sign (strip s) in
      case digitpart body of
        None \<Rightarrow> Inl ValueError
      | Some ds \<Rightarrow> Inr (if neg then - int (nat_of_digits ds) else int (nat_of_digits ds)))"

definition digit_char :: "nat \<Rightarrow> char" where
  "digit_char d = char_of (48 + d)"

fun str_of_nat :: "nat \<Rightarrow> string" where
  "str_of_nat n =
     (if n < 10 then [digit_char n] else str_of_nat (n div 10) @ [digit_char (n mod 10)])"

declare str_of_nat.simps [simp del]

text \<open>\<^verbatim>\<open>str(i)\<close> of an integer.\<close>

definition str_of_int :: "int \<Rightarrow> string" where
  "str_of_int i = (if i < 0 then CHR ''-'' # str_of_nat (nat (- i)) else str_of_nat (nat i))"

text \<open>\<^verbatim>\<open>str(b)\<close> of a boolean.\<close>

definition str_of_bool :: "bool \<Rightarrow> string" where
  "str_of_bool b = (if b then ''True'' else ''False'')"

section \<open>The host's floating-point numbers\<close>

text \<open>
  A \<^verbatim>\<open>float\<close> of the host is an IEEE 754 binary64 value: a sign with a magnitude,
  which is zero or a rational \<open>m * 2 ^ e\<close> with \<open>m < 2 ^ 53\<close> and \<open>- 1074 \<le> e\<close>, below
  \<open>2 ^ 1024\<close>; an infinity with its sign; or the NaN. The Boolean is True for the
  negative sign. Every operation rounds its exact result to the nearest such value,
  ties to the even mantissa.
\<close>

datatype pyfloat = Finite bool rat | Infinity bool | NaN

definition pow2 :: "int \<Rightarrow> rat" where
  "pow2 k = (if 0 \<le> k then 2 ^ nat k else 1 / 2 ^ nat (- k))"

text \<open>\<open>\<lfloor>log\<^sub>2 q\<rfloor>\<close> for a positive rational \<open>q\<close>, from the bit lengths of its fraction.\<close>

definition floor_log2 :: "rat \<Rightarrow> int" where
  "floor_log2 q =
     (let (a, b) = quotient_of q; k = bitlen a - bitlen b in
      if pow2 k \<le> q then k else k - 1)"

definition round_half_even :: "rat \<Rightarrow> int" where
  "round_half_even q =
     (let f = \<lfloor>q\<rfloor>; d = q - of_int f in
      if d < 1 / 2 then f
      else if 1 / 2 < d then f + 1
      else if even f then f else f + 1)"

text \<open>
  Rounding a positive rational to binary64: the magnitude of the nearest value, or None
  when it is \<open>2 ^ 1024\<close> or more (the overflow).
\<close>

definition round_mag :: "rat \<Rightarrow> rat option" where
  "round_mag q =
     (let p = max (floor_log2 q - 52) (- 1074);
          r = of_int (round_half_even (q / pow2 p)) * pow2 p in
      if 2 ^ 1024 \<le> r then None else Some r)"

definition float_round :: "bool \<Rightarrow> rat \<Rightarrow> pyfloat" where
  "float_round neg q =
     (if q = 0 then Finite neg 0
      else case round_mag q of None \<Rightarrow> Infinity neg | Some r \<Rightarrow> Finite neg r)"

text \<open>The float nearest to a rational, with the sign of the rational.\<close>

definition float_of_rat :: "rat \<Rightarrow> pyfloat" where
  "float_of_rat q = float_round (q < 0) \<bar>q\<bar>"

definition fval :: "bool \<Rightarrow> rat \<Rightarrow> rat" where
  "fval neg m = (if neg then - m else m)"

text \<open>\<^verbatim>\<open>float(i)\<close> of an integer: OverflowError when the integer rounds to an infinity.\<close>

definition float_of_int :: "int \<Rightarrow> error + pyfloat" where
  "float_of_int i =
     (case float_of_rat (of_int i) of
        Infinity _ \<Rightarrow> Inl OverflowError
      | f \<Rightarrow> Inr f)"

text \<open>\<^verbatim>\<open>int(f)\<close> of a float: truncation toward zero.\<close>

definition int_of_float :: "pyfloat \<Rightarrow> error + int" where
  "int_of_float f =
     (case f of
        Finite neg m \<Rightarrow> Inr (if neg then - \<lfloor>m\<rfloor> else \<lfloor>m\<rfloor>)
      | Infinity _ \<Rightarrow> Inl OverflowError
      | NaN \<Rightarrow> Inl ValueError)"

subsection \<open>Parsing a float\<close>

definition lower :: "char \<Rightarrow> char" where
  "lower c = (if 65 \<le> (of_char c :: nat) \<and> (of_char c :: nat) \<le> 90
              then char_of ((of_char c :: nat) + 32) else c)"

text \<open>The exponent part after \<^verbatim>\<open>e\<close> or \<^verbatim>\<open>E\<close>: an optional sign and a digitpart.\<close>

definition exponent_of :: "string \<Rightarrow> int option" where
  "exponent_of s =
     (let (neg, body) = split_sign s in
      case digitpart body of
        None \<Rightarrow> None
      | Some ds \<Rightarrow> Some (if neg then - int (nat_of_digits ds) else int (nat_of_digits ds)))"

text \<open>
  The host's \<^verbatim>\<open>number\<close>: \<^verbatim>\<open>[digitpart] "." digitpart | digitpart ["."]\<close>. The result is
  the digits of the integer part followed by those of the fraction, and the number of
  the fraction's digits.
\<close>

definition number_of :: "string \<Rightarrow> (nat list \<times> nat) option" where
  "number_of s =
     (let ip = takeWhile (\<lambda>c. c \<noteq> CHR ''.'') s; rest = dropWhile (\<lambda>c. c \<noteq> CHR ''.'') s in
      case rest of
        [] \<Rightarrow> map_option (\<lambda>ds. (ds, 0)) (digitpart ip)
      | _ # fp \<Rightarrow>
          (if ip = [] then map_option (\<lambda>fs. (fs, length fs)) (digitpart fp)
           else case digitpart ip of
                  None \<Rightarrow> None
                | Some ds \<Rightarrow>
                    (if fp = [] then Some (ds, 0)
                     else map_option (\<lambda>fs. (ds @ fs, length fs)) (digitpart fp))))"

definition pow10 :: "int \<Rightarrow> rat" where
  "pow10 k = (if 0 \<le> k then 10 ^ nat k else 1 / 10 ^ nat (- k))"

text \<open>The value of \<^verbatim>\<open>number [exponent]\<close>, exactly.\<close>

definition floatnumber_of :: "string \<Rightarrow> rat option" where
  "floatnumber_of s =
     (let m = takeWhile (\<lambda>c. lower c \<noteq> CHR ''e'') s;
          rest = dropWhile (\<lambda>c. lower c \<noteq> CHR ''e'') s in
      case number_of m of
        None \<Rightarrow> None
      | Some (ds, k) \<Rightarrow>
          (case rest of
             [] \<Rightarrow> Some (of_nat (nat_of_digits ds) * pow10 (- int k))
           | _ # ex \<Rightarrow>
               (case exponent_of ex of
                  None \<Rightarrow> None
                | Some e \<Rightarrow> Some (of_nat (nat_of_digits ds) * pow10 (e - int k)))))"

text \<open>\<^verbatim>\<open>float(s)\<close>.\<close>

definition float_of_str :: "string \<Rightarrow> error + pyfloat" where
  "float_of_str s =
     (let (neg, body) = split_sign (strip s); low = map lower body in
      if low = ''inf'' \<or> low = ''infinity'' then Inr (Infinity neg)
      else if low = ''nan'' then Inr NaN
      else case floatnumber_of body of
             None \<Rightarrow> Inl ValueError
           | Some q \<Rightarrow> Inr (float_round neg q))"

subsection \<open>Arithmetic and comparison of floats\<close>

definition fneg :: "pyfloat \<Rightarrow> pyfloat" where
  "fneg f = (case f of Finite neg m \<Rightarrow> Finite (\<not> neg) m | Infinity neg \<Rightarrow> Infinity (\<not> neg) | NaN \<Rightarrow> NaN)"

definition fadd :: "pyfloat \<Rightarrow> pyfloat \<Rightarrow> pyfloat" where
  "fadd x y =
     (case (x, y) of
        (NaN, _) \<Rightarrow> NaN
      | (_, NaN) \<Rightarrow> NaN
      | (Infinity a, Infinity b) \<Rightarrow> (if a = b then Infinity a else NaN)
      | (Infinity a, Finite _ _) \<Rightarrow> Infinity a
      | (Finite _ _, Infinity b) \<Rightarrow> Infinity b
      | (Finite a m, Finite b n) \<Rightarrow>
          (let r = fval a m + fval b n in
           if r = 0 then Finite (a \<and> b \<and> m = 0 \<and> n = 0) 0
           else float_of_rat r))"

definition fsub :: "pyfloat \<Rightarrow> pyfloat \<Rightarrow> pyfloat" where
  "fsub x y = fadd x (fneg y)"

definition fmul :: "pyfloat \<Rightarrow> pyfloat \<Rightarrow> pyfloat" where
  "fmul x y =
     (case (x, y) of
        (NaN, _) \<Rightarrow> NaN
      | (_, NaN) \<Rightarrow> NaN
      | (Infinity a, Infinity b) \<Rightarrow> Infinity (a \<noteq> b)
      | (Infinity a, Finite b n) \<Rightarrow> (if n = 0 then NaN else Infinity (a \<noteq> b))
      | (Finite a m, Infinity b) \<Rightarrow> (if m = 0 then NaN else Infinity (a \<noteq> b))
      | (Finite a m, Finite b n) \<Rightarrow> float_round (a \<noteq> b) (m * n))"

text \<open>\<^verbatim>\<open>x / y\<close> on floats: the host raises ZeroDivisionError on a zero divisor.\<close>

definition fdiv :: "pyfloat \<Rightarrow> pyfloat \<Rightarrow> error + pyfloat" where
  "fdiv x y =
     (case (x, y) of
        (_, Finite b n) \<Rightarrow>
          (if n = 0 then Inl ZeroDivisionError
           else case x of
                  NaN \<Rightarrow> Inr NaN
                | Infinity a \<Rightarrow> Inr (Infinity (a \<noteq> b))
                | Finite a m \<Rightarrow> Inr (float_round (a \<noteq> b) (m / n)))
      | (NaN, _) \<Rightarrow> Inr NaN
      | (_, NaN) \<Rightarrow> Inr NaN
      | (Infinity a, Infinity b) \<Rightarrow> Inr NaN
      | (Finite a m, Infinity b) \<Rightarrow> Inr (Finite (a \<noteq> b) 0))"

definition flt :: "pyfloat \<Rightarrow> pyfloat \<Rightarrow> bool" where
  "flt x y =
     (case (x, y) of
        (NaN, _) \<Rightarrow> False
      | (_, NaN) \<Rightarrow> False
      | (Infinity a, Infinity b) \<Rightarrow> a \<and> \<not> b
      | (Infinity a, Finite _ _) \<Rightarrow> a
      | (Finite _ _, Infinity b) \<Rightarrow> \<not> b
      | (Finite a m, Finite b n) \<Rightarrow> fval a m < fval b n)"

definition fle :: "pyfloat \<Rightarrow> pyfloat \<Rightarrow> bool" where
  "fle x y =
     (case (x, y) of
        (NaN, _) \<Rightarrow> False
      | (_, NaN) \<Rightarrow> False
      | (Infinity a, Infinity b) \<Rightarrow> a \<or> \<not> b
      | (Infinity a, Finite _ _) \<Rightarrow> a
      | (Finite _ _, Infinity b) \<Rightarrow> \<not> b
      | (Finite a m, Finite b n) \<Rightarrow> fval a m \<le> fval b n)"

subsection \<open>The host's \<^verbatim>\<open>repr\<close> of a float\<close>

text \<open>\<open>\<lfloor>log\<^sub>1\<^sub>0 q\<rfloor>\<close> for a positive rational \<open>q\<close>, from the lengths of its fraction.\<close>

definition floor_log10 :: "rat \<Rightarrow> int" where
  "floor_log10 q =
     (let (a, b) = quotient_of q;
          k = int (length (str_of_nat (nat a))) - int (length (str_of_nat (nat b))) in
      if pow10 k \<le> q then k else k - 1)"

text \<open>
  The decimal \<open>c * 10 ^ e\<close> with \<open>n\<close> significant digits that reads back as the float of
  magnitude \<open>q\<close>, if there is one: the candidates are the two such decimals around \<open>q\<close>;
  of two that read back as \<open>q\<close> the nearer is taken, the even one on a tie.
\<close>

definition digits_at :: "nat \<Rightarrow> rat \<Rightarrow> (int \<times> int) option" where
  "digits_at n q =
     (let e = floor_log10 q + 1 - int n;
          x = q / pow10 e;
          lo = \<lfloor>x\<rfloor>;
          hi = \<lceil>x\<rceil>;
          lo_ok = (lo \<noteq> 0 \<and> round_mag (of_int lo * pow10 e) = Some q);
          hi_ok = (round_mag (of_int hi * pow10 e) = Some q) in
      if lo_ok \<and> hi_ok then
        (if x - of_int lo < of_int hi - x then Some (lo, e)
         else if of_int hi - x < x - of_int lo then Some (hi, e)
         else if even lo then Some (lo, e) else Some (hi, e))
      else if lo_ok then Some (lo, e)
      else if hi_ok then Some (hi, e)
      else None)"

text \<open>The shortest such decimal: the first \<open>n\<close> from 1 to 17 that has one.\<close>

fun shortest_from :: "nat \<Rightarrow> nat \<Rightarrow> rat \<Rightarrow> int \<times> int" where
  "shortest_from 0 n q = (round_half_even (q / pow10 (floor_log10 q + 1 - int n)),
                          floor_log10 q + 1 - int n)"
| "shortest_from (Suc fuel) n q =
     (case digits_at n q of
        Some r \<Rightarrow> r
      | None \<Rightarrow> shortest_from fuel (Suc n) q)"

definition shortest_digits :: "rat \<Rightarrow> int \<times> int" where
  "shortest_digits q = shortest_from 16 1 q"

definition strip_zeros :: "string \<Rightarrow> string" where
  "strip_zeros ds = rev (dropWhile (\<lambda>c. c = CHR ''0'') (rev ds))"

text \<open>The exponent of the scientific form: a sign and at least two digits.\<close>

definition exp_str :: "int \<Rightarrow> string" where
  "exp_str e =
     (let a = str_of_nat (nat \<bar>e\<bar>) in
      (if e < 0 then ''-'' else ''+'') @ (if length a < 2 then CHR ''0'' # a else a))"

text \<open>
  The digits \<open>ds\<close> with the decimal point after the first \<open>d\<close> of them: fixed notation
  when \<open>- 4 < d \<le> 16\<close>, scientific otherwise.
\<close>

definition format_digits :: "string \<Rightarrow> int \<Rightarrow> string" where
  "format_digits ds d =
     (if d \<le> - 4 \<or> 16 < d then
        (if length ds \<le> 1 then ds else take 1 ds @ ''.'' @ drop 1 ds) @ ''e'' @ exp_str (d - 1)
      else if d \<le> 0 then ''0.'' @ replicate (nat (- d)) (CHR ''0'') @ ds
      else if int (length ds) \<le> d then ds @ replicate (nat d - length ds) (CHR ''0'') @ ''.0''
      else take (nat d) ds @ ''.'' @ drop (nat d) ds)"

definition repr_mag :: "rat \<Rightarrow> string" where
  "repr_mag q =
     (if q = 0 then ''0.0''
      else let (c, e) = shortest_digits q; full = str_of_nat (nat c) in
           format_digits (strip_zeros full) (int (length full) + e))"

text \<open>\<^verbatim>\<open>str(f)\<close> of a float, which is its \<^verbatim>\<open>repr\<close>.\<close>

definition str_of_float :: "pyfloat \<Rightarrow> string" where
  "str_of_float f =
     (case f of
        Finite neg m \<Rightarrow> (if neg then ''-'' else '''') @ repr_mag m
      | Infinity neg \<Rightarrow> (if neg then ''-inf'' else ''inf'')
      | NaN \<Rightarrow> ''nan'')"

section \<open>The host's strings\<close>

text \<open>
  \<^verbatim>\<open>s[i:j]\<close>: a negative index counts from the end; both indices are then clamped to
  \<open>0..len(s)\<close>; the slice is empty when the start is not below the end. It never raises.
\<close>

definition slice_index :: "nat \<Rightarrow> int \<Rightarrow> nat" where
  "slice_index n k = (if k < 0 then nat (max (k + int n) 0) else min (nat k) n)"

definition py_slice :: "string \<Rightarrow> int \<Rightarrow> int \<Rightarrow> string" where
  "py_slice s i j =
     (let lo = slice_index (length s) i; hi = slice_index (length s) j in
      take (hi - lo) (drop lo s))"

text \<open>
  \<^verbatim>\<open>s.replace(old, new)\<close>: every occurrence of \<open>old\<close>, found from the left without
  overlap; an empty \<open>old\<close> matches before every character and at the end.
\<close>

function replace_scan :: "string \<Rightarrow> string \<Rightarrow> string \<Rightarrow> string" where
  "replace_scan old new [] = []"
| "replace_scan old new (c # cs) =
     (if old \<noteq> [] \<and> take (length old) (c # cs) = old
      then new @ replace_scan old new (drop (length old) (c # cs))
      else c # replace_scan old new cs)"
  by pat_completeness auto
termination
  by (relation "measure (\<lambda>(old, new, s). length s)") (auto simp: neq_Nil_conv)

definition py_replace :: "string \<Rightarrow> string \<Rightarrow> string \<Rightarrow> string" where
  "py_replace s old new =
     (if old = [] then new @ concat (map (\<lambda>c. c # new) s) else replace_scan old new s)"

section \<open>Numbers of the builtins\<close>

datatype num = PyInt int | PyFloat pyfloat

definition str2bool :: "string \<Rightarrow> error + bool" where
  "str2bool s =
     (if s = ''True'' then Inr True
      else if s = ''False'' then Inr False
      else Inl TypeError)"

definition str2int :: "string \<Rightarrow> error + int" where
  "str2int s = (case float_of_str s of Inl e \<Rightarrow> Inl e | Inr f \<Rightarrow> int_of_float f)"

definition str2num :: "string \<Rightarrow> error + num" where
  "str2num s =
     (case int_of_str s of
        Inr i \<Rightarrow> Inr (PyInt i)
      | Inl _ \<Rightarrow> (case float_of_str s of Inl e \<Rightarrow> Inl e | Inr f \<Rightarrow> Inr (PyFloat f)))"

definition str_of_num :: "num \<Rightarrow> string" where
  "str_of_num x = (case x of PyInt i \<Rightarrow> str_of_int i | PyFloat f \<Rightarrow> str_of_float f)"

text \<open>The conversion of an operand of mixed arithmetic to a float.\<close>

definition to_float :: "num \<Rightarrow> error + pyfloat" where
  "to_float x = (case x of PyInt i \<Rightarrow> float_of_int i | PyFloat f \<Rightarrow> Inr f)"

text \<open>
  \<^verbatim>\<open>x + y\<close>, \<^verbatim>\<open>x - y\<close>, \<^verbatim>\<open>x * y\<close>: exact on two integers, and on floats once an
  integer operand is converted.
\<close>

definition num_arith ::
  "(int \<Rightarrow> int \<Rightarrow> int) \<Rightarrow> (pyfloat \<Rightarrow> pyfloat \<Rightarrow> pyfloat) \<Rightarrow> num \<Rightarrow> num \<Rightarrow> error + num" where
  "num_arith iop fop x y =
     (case (x, y) of
        (PyInt a, PyInt b) \<Rightarrow> Inr (PyInt (iop a b))
      | _ \<Rightarrow>
          (case to_float x of
             Inl e \<Rightarrow> Inl e
           | Inr fa \<Rightarrow>
               (case to_float y of
                  Inl e \<Rightarrow> Inl e
                | Inr fb \<Rightarrow> Inr (PyFloat (fop fa fb)))))"

definition num_add :: "num \<Rightarrow> num \<Rightarrow> error + num" where
  "num_add = num_arith (+) fadd"

definition num_sub :: "num \<Rightarrow> num \<Rightarrow> error + num" where
  "num_sub = num_arith (-) fsub"

definition num_mul :: "num \<Rightarrow> num \<Rightarrow> error + num" where
  "num_mul = num_arith (*) fmul"

text \<open>
  \<^verbatim>\<open>x / y\<close> is the true division of the host: on two integers it is the float nearest
  to the quotient, never an integer.
\<close>

definition num_truediv :: "num \<Rightarrow> num \<Rightarrow> error + num" where
  "num_truediv x y =
     (case (x, y) of
        (PyInt a, PyInt b) \<Rightarrow>
          (if b = 0 then Inl ZeroDivisionError
           else case float_round ((a < 0) \<noteq> (b < 0)) \<bar>of_int a / of_int b\<bar> of
                  Infinity _ \<Rightarrow> Inl OverflowError
                | f \<Rightarrow> Inr (PyFloat f))
      | _ \<Rightarrow>
          (case to_float x of
             Inl e \<Rightarrow> Inl e
           | Inr fa \<Rightarrow>
               (case to_float y of
                  Inl e \<Rightarrow> Inl e
                | Inr fb \<Rightarrow>
                    (case fdiv fa fb of Inl e \<Rightarrow> Inl e | Inr f \<Rightarrow> Inr (PyFloat f)))))"

definition num_neg :: "num \<Rightarrow> num" where
  "num_neg x = (case x of PyInt a \<Rightarrow> PyInt (- a) | PyFloat f \<Rightarrow> PyFloat (fneg f))"

text \<open>The host compares an integer with a float exactly, without rounding the integer.\<close>

definition exact_of :: "num \<Rightarrow> pyfloat" where
  "exact_of x = (case x of PyInt a \<Rightarrow> Finite (a < 0) \<bar>of_int a\<bar> | PyFloat f \<Rightarrow> f)"

definition num_lt :: "num \<Rightarrow> num \<Rightarrow> bool" where
  "num_lt x y = flt (exact_of x) (exact_of y)"

definition num_le :: "num \<Rightarrow> num \<Rightarrow> bool" where
  "num_le x y = fle (exact_of x) (exact_of y)"

section \<open>Builtins made from a function on strings\<close>

text \<open>
  \<^verbatim>\<open>createUnaryOpBuiltin\<close>, \<^verbatim>\<open>createBinaryOpBuiltin\<close>, \<^verbatim>\<open>createTrinaryOpBuiltin\<close>: the
  operands are popped, the topmost first; the function gets them in the order they were
  pushed; the bare \<^verbatim>\<open>except:\<close> turns every exception of the function into the string
  \<^verbatim>\<open>"Undefined"\<close>.
\<close>

definition createUnaryOpBuiltin :: "(string \<Rightarrow> error + string) \<Rightarrow> Stack \<Rightarrow> error + Stack" where
  "createUnaryOpBuiltin func s =
     (let (item, s1) = pop s;
          result = (case func item of Inl _ \<Rightarrow> ''Undefined'' | Inr r \<Rightarrow> r) in
      Inr (push result s1))"

definition createBinaryOpBuiltin ::
  "(string \<Rightarrow> string \<Rightarrow> error + string) \<Rightarrow> Stack \<Rightarrow> error + Stack" where
  "createBinaryOpBuiltin func s =
     (let (a, s1) = pop s;
          (b, s2) = pop s1;
          result = (case func b a of Inl _ \<Rightarrow> ''Undefined'' | Inr r \<Rightarrow> r) in
      Inr (push result s2))"

definition createTrinaryOpBuiltin ::
  "(string \<Rightarrow> string \<Rightarrow> string \<Rightarrow> error + string) \<Rightarrow> Stack \<Rightarrow> error + Stack" where
  "createTrinaryOpBuiltin func s =
     (let (a, s1) = pop s;
          (b, s2) = pop s1;
          (c, s3) = pop s2;
          result = (case func c b a of Inl _ \<Rightarrow> ''Undefined'' | Inr r \<Rightarrow> r) in
      Inr (push result s3))"

text \<open>The lambdas of the table, lines 243 to 274 of the source.\<close>

definition arith_op :: "(num \<Rightarrow> num \<Rightarrow> error + num) \<Rightarrow> string \<Rightarrow> string \<Rightarrow> error + string" where
  "arith_op f a b =
     (case str2num a of
        Inl e \<Rightarrow> Inl e
      | Inr x \<Rightarrow>
          (case str2num b of
             Inl e \<Rightarrow> Inl e
           | Inr y \<Rightarrow> (case f x y of Inl e \<Rightarrow> Inl e | Inr z \<Rightarrow> Inr (str_of_num z))))"

definition compare_op :: "(num \<Rightarrow> num \<Rightarrow> bool) \<Rightarrow> string \<Rightarrow> string \<Rightarrow> error + string" where
  "compare_op f a b =
     (case str2num a of
        Inl e \<Rightarrow> Inl e
      | Inr x \<Rightarrow>
          (case str2num b of
             Inl e \<Rightarrow> Inl e
           | Inr y \<Rightarrow> Inr (str_of_bool (f x y))))"

definition bool_op :: "(bool \<Rightarrow> bool \<Rightarrow> bool) \<Rightarrow> string \<Rightarrow> string \<Rightarrow> error + string" where
  "bool_op f a b =
     (case str2bool a of
        Inl e \<Rightarrow> Inl e
      | Inr x \<Rightarrow>
          (case str2bool b of
             Inl e \<Rightarrow> Inl e
           | Inr y \<Rightarrow> Inr (str_of_bool (f x y))))"

definition neg_op :: "string \<Rightarrow> error + string" where
  "neg_op x = (case str2num x of Inl e \<Rightarrow> Inl e | Inr v \<Rightarrow> Inr (str_of_num (num_neg v)))"

definition not_op :: "string \<Rightarrow> error + string" where
  "not_op x = (case str2bool x of Inl e \<Rightarrow> Inl e | Inr v \<Rightarrow> Inr (str_of_bool (\<not> v)))"

definition if_op :: "string \<Rightarrow> string \<Rightarrow> string \<Rightarrow> error + string" where
  "if_op condition trueString falseString =
     (case str2bool condition of
        Inl e \<Rightarrow> Inl e
      | Inr c \<Rightarrow> Inr (if c then trueString else falseString))"

definition substr_op :: "string \<Rightarrow> string \<Rightarrow> string \<Rightarrow> error + string" where
  "substr_op string start end' =
     (case str2int start of
        Inl e \<Rightarrow> Inl e
      | Inr i \<Rightarrow>
          (case str2int end' of
             Inl e \<Rightarrow> Inl e
           | Inr j \<Rightarrow> Inr (py_slice string i j)))"

definition int_op :: "string \<Rightarrow> error + string" where
  "int_op x = (case str2int x of Inl e \<Rightarrow> Inl e | Inr i \<Rightarrow> Inr (str_of_int i))"

definition float_op :: "string \<Rightarrow> error + string" where
  "float_op x = (case float_of_str x of Inl e \<Rightarrow> Inl e | Inr f \<Rightarrow> Inr (str_of_float f))"

section \<open>The table of builtins\<close>

text \<open>
  An entry of \<^verbatim>\<open>builtins\<close> is a function on the stack; \<^verbatim>\<open>builtinEval\<close> alone calls
  back into the evaluator, so it is an entry of its own.
\<close>

datatype builtin = Native "Stack \<Rightarrow> error + Stack" | BuiltinEval

definition builtins :: "string \<Rightarrow> builtin option" where
  "builtins name =
     (if name = ''drop'' then Some (Native builtinDrop)
      else if name = ''dupe'' then Some (Native builtinDupe)
      else if name = ''swap'' then Some (Native builtinSwap)
      else if name = ''rot3'' then Some (Native (createRotBuiltin 3))
      else if name = ''rot4'' then Some (Native (createRotBuiltin 4))
      else if name = ''rot5'' then Some (Native (createRotBuiltin 5))
      else if name = ''rot6'' then Some (Native (createRotBuiltin 6))
      else if name = ''rot7'' then Some (Native (createRotBuiltin 7))
      else if name = ''rot8'' then Some (Native (createRotBuiltin 8))
      else if name = ''rot9'' then Some (Native (createRotBuiltin 9))
      else if name = ''+'' then Some (Native (createBinaryOpBuiltin (arith_op num_add)))
      else if name = ''-'' then Some (Native (createBinaryOpBuiltin (arith_op num_sub)))
      else if name = ''*'' then Some (Native (createBinaryOpBuiltin (arith_op num_mul)))
      else if name = ''/'' then Some (Native (createBinaryOpBuiltin (arith_op num_truediv)))
      else if name = ''~'' then Some (Native (createUnaryOpBuiltin neg_op))
      else if name = ''and'' then Some (Native (createBinaryOpBuiltin (bool_op (\<and>))))
      else if name = ''or'' then Some (Native (createBinaryOpBuiltin (bool_op (\<or>))))
      else if name = ''not'' then Some (Native (createUnaryOpBuiltin not_op))
      else if name = ''=='' then
        Some (Native (createBinaryOpBuiltin (\<lambda>a b. Inr (str_of_bool (a = b)))))
      else if name = ''!='' then
        Some (Native (createBinaryOpBuiltin (\<lambda>a b. Inr (str_of_bool (a \<noteq> b)))))
      else if name = ''<'' then Some (Native (createBinaryOpBuiltin (compare_op num_lt)))
      else if name = ''>'' then
        Some (Native (createBinaryOpBuiltin (compare_op (\<lambda>x y. num_lt y x))))
      else if name = ''<='' then Some (Native (createBinaryOpBuiltin (compare_op num_le)))
      else if name = ''>='' then
        Some (Native (createBinaryOpBuiltin (compare_op (\<lambda>x y. num_le y x))))
      else if name = ''if'' then Some (Native (createTrinaryOpBuiltin if_op))
      else if name = ''len'' then
        Some (Native (createUnaryOpBuiltin (\<lambda>x. Inr (str_of_int (int (length x))))))
      else if name = ''cat'' then Some (Native (createBinaryOpBuiltin (\<lambda>a b. Inr (a @ b))))
      else if name = ''substr'' then Some (Native (createTrinaryOpBuiltin substr_op))
      else if name = ''replace'' then
        Some (Native (createTrinaryOpBuiltin (\<lambda>string old new. Inr (py_replace string old new))))
      else if name = ''int'' then Some (Native (createUnaryOpBuiltin int_op))
      else if name = ''float'' then Some (Native (createUnaryOpBuiltin float_op))
      else if name = ''eval'' then Some BuiltinEval
      else None)"

section \<open>The tokenizer\<close>

text \<open>
  A token is the triple of the groups of the regular expression of \<^verbatim>\<open>lexLines\<close>: the
  sigil (empty, \<^verbatim>\<open>:\<close> or \<^verbatim>\<open>$\<close>), the bare text, and the text between double quotes;
  a group that took no part in the match is the empty string.
\<close>

type_synonym Token = "string \<times> string \<times> string"

text \<open>The class \<^verbatim>\<open>[^ \t\r"]\<close>.\<close>

definition is_bare :: "char \<Rightarrow> bool" where
  "is_bare c = (c \<noteq> CHR '' '' \<and> c \<noteq> CHR 0x09 \<and> c \<noteq> CHR 0x0D \<and> c \<noteq> CHR 0x22)"

text \<open>
  \<^verbatim>\<open>((?:[^"\\]*(?:\\.)?)*)"\<close> after the opening quote: characters other than the quote
  and the backslash, and pairs of a backslash with any character but the newline, up to
  the first quote that is not the second of a pair. The result is the text before that
  quote and the text after it; None when there is no such quote.
\<close>

fun scan_quoted :: "string \<Rightarrow> (string \<times> string) option" where
  "scan_quoted [] = None"
| "scan_quoted [c] = (if c = CHR 0x22 then Some ([], []) else None)"
| "scan_quoted (c # d # cs) =
     (if c = CHR 0x22 then Some ([], d # cs)
      else if c = CHR 0x5C then
        (if d = CHR 0x0A then None
         else map_option (\<lambda>(x, r). (c # d # x, r)) (scan_quoted cs))
      else map_option (\<lambda>(x, r). (c # x, r)) (scan_quoted (d # cs)))"

text \<open>
  The two alternatives after the sigil: a longest run of bare characters, or a quoted
  text. The result is the two groups and the text after the match.
\<close>

definition match_body :: "string \<Rightarrow> (string \<times> string \<times> string) option" where
  "match_body s =
     (if takeWhile is_bare s \<noteq> [] then Some (takeWhile is_bare s, [], dropWhile is_bare s)
      else case s of
             [] \<Rightarrow> None
           | c # cs \<Rightarrow>
               (if c = CHR 0x22 then map_option (\<lambda>(x, r). ([], x, r)) (scan_quoted cs)
                else None))"

text \<open>
  A match at the start of \<open>s\<close>: the sigil \<^verbatim>\<open>[:$]?\<close> is taken when it is there; when the
  rest does not match after it, the match is tried again without a sigil.
\<close>

definition match_token :: "string \<Rightarrow> (Token \<times> string) option" where
  "match_token s =
     (case s of
        [] \<Rightarrow> None
      | c # cs \<Rightarrow>
          (if c = CHR '':'' \<or> c = CHR ''$'' then
             (case match_body cs of
                Some (short, long, r) \<Rightarrow> Some (([c], short, long), r)
              | None \<Rightarrow> map_option (\<lambda>(short, long, r). (([], short, long), r)) (match_body s))
           else map_option (\<lambda>(short, long, r). (([], short, long), r)) (match_body s)))"

lemma scan_quoted_shorter: "scan_quoted s = Some (x, r) \<Longrightarrow> length r < length s"
  by (induction s arbitrary: x r rule: scan_quoted.induct)
     (auto split: if_splits option.splits)

lemma match_body_shorter: "match_body s = Some (a, b, r) \<Longrightarrow> length r < length s"
proof (cases "takeWhile is_bare s = []")
  case True
  assume "match_body s = Some (a, b, r)"
  with True show ?thesis
    by (cases s) (auto simp: match_body_def split: if_splits dest!: scan_quoted_shorter)
next
  case False
  assume m: "match_body s = Some (a, b, r)"
  from False obtain y ys where "takeWhile is_bare s = y # ys"
    by (cases "takeWhile is_bare s") auto
  then have "s = (y # ys) @ dropWhile is_bare s"
    by (metis takeWhile_dropWhile_id)
  then have "length s = Suc (length ys) + length (dropWhile is_bare s)"
    by (metis length_append length_Cons)
  then have "length (dropWhile is_bare s) < length s" by simp
  with False m show ?thesis by (auto simp: match_body_def)
qed

lemma match_token_shorter: "match_token s = Some (t, r) \<Longrightarrow> length r < length s"
  by (cases s)
     (auto simp: match_token_def split: if_splits option.splits dest!: match_body_shorter)

text \<open>
  \<^verbatim>\<open>findall\<close> on one line: the matches from left to right, each search starting where
  the match before it ended; a position with no match is skipped.
\<close>

function lexLine :: "string \<Rightarrow> Token list" where
  "lexLine [] = []"
| "lexLine (c # cs) =
     (case match_token (c # cs) of
        None \<Rightarrow> lexLine cs
      | Some (t, r) \<Rightarrow> t # lexLine r)"
  by pat_completeness auto
termination
  by (relation "measure length") (auto dest: match_token_shorter)

definition lexLines :: "string list \<Rightarrow> Token list" where
  "lexLines lines = concat (map lexLine lines)"

text \<open>\<^verbatim>\<open>string.split("\n")\<close>.\<close>

fun split_newline :: "string \<Rightarrow> string list" where
  "split_newline [] = [[]]"
| "split_newline (c # cs) =
     (if c = CHR 0x0A then [] # split_newline cs
      else case split_newline cs of
             [] \<Rightarrow> [[c]]
           | l # ls \<Rightarrow> (c # l) # ls)"

definition lexString :: "string \<Rightarrow> Token list" where
  "lexString string = lexLines (split_newline string)"

section \<open>The parser\<close>

text \<open>
  \<^verbatim>\<open>bytes(longString, "utf-8")\<close>: a code point below 128 is one byte, one from 128 to
  255 is two bytes.
\<close>

definition utf8_bytes :: "string \<Rightarrow> string" where
  "utf8_bytes s =
     concat (map (\<lambda>c. if (of_char c :: nat) < 128 then [c]
                       else [char_of (192 + (of_char c :: nat) div 64),
                             char_of (128 + (of_char c :: nat) mod 64)]) s)"

definition hex_val :: "char \<Rightarrow> nat option" where
  "hex_val c =
     (let n = (of_char c :: nat) in
      if 48 \<le> n \<and> n \<le> 57 then Some (n - 48)
      else if 97 \<le> n \<and> n \<le> 102 then Some (n - 87)
      else if 65 \<le> n \<and> n \<le> 70 then Some (n - 55)
      else None)"

text \<open>The value of exactly \<open>n\<close> hexadecimal digits at the start of \<open>s\<close>, if they are there.\<close>

definition take_hex :: "nat \<Rightarrow> string \<Rightarrow> nat option" where
  "take_hex n s =
     (if length s < n \<or> (\<exists>c \<in> set (take n s). hex_val c = None) then None
      else Some (foldl (\<lambda>a c. 16 * a + the (hex_val c)) 0 (take n s)))"

definition is_octal :: "char \<Rightarrow> bool" where
  "is_octal c = (48 \<le> (of_char c :: nat) \<and> (of_char c :: nat) \<le> 55)"

text \<open>The number of octal digits, one to three, of an octal escape that starts \<open>s\<close>.\<close>

definition octal_len :: "string \<Rightarrow> nat" where
  "octal_len s = length (takeWhile is_octal (take 3 s))"

definition octal_val :: "string \<Rightarrow> nat" where
  "octal_val s = foldl (\<lambda>a c. 8 * a + ((of_char c :: nat) - 48)) 0 s"

text \<open>
  The escape after a backslash that stands for one character by itself, as the host's
  codec \<^verbatim>\<open>unicode_escape\<close> has them.
\<close>

definition simple_escape :: "char \<Rightarrow> char option" where
  "simple_escape d =
     (if d = CHR 0x5C then Some (CHR 0x5C)
      else if d = CHR 0x27 then Some (CHR 0x27)
      else if d = CHR 0x22 then Some (CHR 0x22)
      else if d = CHR ''a'' then Some (CHR 0x07)
      else if d = CHR ''b'' then Some (CHR 0x08)
      else if d = CHR ''f'' then Some (CHR 0x0C)
      else if d = CHR ''n'' then Some (CHR 0x0A)
      else if d = CHR ''r'' then Some (CHR 0x0D)
      else if d = CHR ''t'' then Some (CHR 0x09)
      else if d = CHR ''v'' then Some (CHR 0x0B)
      else None)"

text \<open>
  A code point as a character of the model. The strings of the model hold code points
  below 256; an escape for a larger one is not an exception of the host, and the model
  marks it with \<open>OutsideModel\<close>.
\<close>

datatype failure = Raised error | OutsideModel

definition emit :: "nat \<Rightarrow> (failure + string) \<Rightarrow> failure + string" where
  "emit n rest =
     (case rest of
        Inl e \<Rightarrow> Inl e
      | Inr r \<Rightarrow> (if n < 256 then Inr (char_of n # r) else Inl OutsideModel))"

text \<open>
  \<^verbatim>\<open>.decode("unicode_escape")\<close> on the bytes: a byte that is not a backslash is the code
  point of its value; a backslash starts an escape. A truncated \<^verbatim>\<open>\x\<close>, \<^verbatim>\<open>\u\<close> or
  \<^verbatim>\<open>\U\<close> escape, a \<^verbatim>\<open>\U\<close> escape above 0x10FFFF, a malformed \<^verbatim>\<open>\N\<close> escape and a
  backslash at the end raise UnicodeDecodeError; an escape the codec does not know stays
  as it is written. The names of \<^verbatim>\<open>\N{...}\<close> are outside the model.
\<close>

function unicode_escape :: "string \<Rightarrow> failure + string" where
  "unicode_escape [] = Inr []"
| "unicode_escape [c] = (if c = CHR 0x5C then Inl (Raised UnicodeDecodeError) else Inr [c])"
| "unicode_escape (c # d # ds) =
     (if c \<noteq> CHR 0x5C then emit (of_char c) (unicode_escape (d # ds))
      else if d = CHR 0x0A then unicode_escape ds
      else if simple_escape d \<noteq> None then
        emit (of_char (the (simple_escape d))) (unicode_escape ds)
      else if is_octal d then
        emit (octal_val (take (octal_len (d # ds)) (d # ds)))
          (unicode_escape (drop (octal_len (d # ds)) (d # ds)))
      else if d = CHR ''x'' then
        (case take_hex 2 ds of
           None \<Rightarrow> Inl (Raised UnicodeDecodeError)
         | Some n \<Rightarrow> emit n (unicode_escape (drop 2 ds)))
      else if d = CHR ''u'' then
        (case take_hex 4 ds of
           None \<Rightarrow> Inl (Raised UnicodeDecodeError)
         | Some n \<Rightarrow> emit n (unicode_escape (drop 4 ds)))
      else if d = CHR ''U'' then
        (case take_hex 8 ds of
           None \<Rightarrow> Inl (Raised UnicodeDecodeError)
         | Some n \<Rightarrow>
             (if 0x10FFFF < n then Inl (Raised UnicodeDecodeError)
              else emit n (unicode_escape (drop 8 ds))))
      else if d = CHR ''N'' then
        (if take 1 ds = ''{'' \<and> CHR ''}'' \<in> set ds then Inl OutsideModel
         else Inl (Raised UnicodeDecodeError))
      else emit (of_char c) (emit (of_char d) (unicode_escape ds)))"
  by pat_completeness auto
termination
proof (relation "measure length")
  fix c d :: char and ds :: string
  assume "is_octal d"
  then have "0 < octal_len (d # ds)" by (simp add: octal_len_def)
  then show "(drop (octal_len (d # ds)) (d # ds), c # d # ds) \<in> measure length"
    by (cases "octal_len (d # ds)") auto
qed auto

text \<open>
  \<^verbatim>\<open>parseTokens\<close>. The decoding of a quoted text can raise; the \<^verbatim>\<open>case _\<close> branch
  raises NotImplementedError.
\<close>

definition token_value :: "Token \<Rightarrow> failure + string" where
  "token_value token =
     (case token of (wordType, shortString, longString) \<Rightarrow>
        if shortString = [] then unicode_escape (utf8_bytes longString)
        else Inr shortString)"

definition token_word :: "Token \<Rightarrow> failure + Word" where
  "token_word token =
     (case token_value token of
        Inl e \<Rightarrow> Inl e
      | Inr v \<Rightarrow>
          (case token of (wordType, shortString, longString) \<Rightarrow>
             if wordType = [] then Inr \<lparr>word_type = STRING, word_value = v\<rparr>
             else if wordType = '':'' then Inr \<lparr>word_type = DEFINE, word_value = v\<rparr>
             else if wordType = ''$'' then Inr \<lparr>word_type = CALL, word_value = v\<rparr>
             else Inl (Raised NotImplementedError)))"

fun parseTokens :: "Token list \<Rightarrow> failure + Word list" where
  "parseTokens [] = Inr []"
| "parseTokens (token # tokens) =
     (case token_word token of
        Inl e \<Rightarrow> Inl e
      | Inr w \<Rightarrow> (case parseTokens tokens of Inl e \<Rightarrow> Inl e | Inr ws \<Rightarrow> Inr (w # ws)))"

section \<open>The evaluator\<close>

text \<open>
  The state of a run: the stack, and the global \<^verbatim>\<open>dictionary\<close> of the user's words.
\<close>

record runtime =
  stack :: Stack
  dictionary :: "string \<rightharpoonup> Word list"

text \<open>
  \<^verbatim>\<open>evaluateWords\<close>. The \<^verbatim>\<open>while\<close> loop may run forever, so the function takes fuel, one
  unit for each word it takes from the front of the queue; None is the run that is out
  of fuel. \<^verbatim>\<open>builtinEval\<close> calls \<^verbatim>\<open>evaluateWords\<close> from inside the loop: \<open>depth\<close> counts
  these nested calls and \<open>limit\<close> is how many of them the host allows before it raises
  RecursionError. An exception ends the run with \<open>Inl\<close>.
\<close>

fun evaluateWords ::
  "nat \<Rightarrow> nat \<Rightarrow> nat \<Rightarrow> Word list \<Rightarrow> runtime \<Rightarrow> (failure + runtime) option" where
  "evaluateWords limit fuel depth [] rt = Some (Inr rt)"
| "evaluateWords limit 0 depth (word # words) rt = None"
| "evaluateWords limit (Suc fuel) depth (word # words) rt =
     (case word_type word of
        STRING \<Rightarrow>
          evaluateWords limit fuel depth words
            (rt\<lparr>stack := push (word_value word) (stack rt)\<rparr>)
      | DEFINE \<Rightarrow>
          (let (text, s1) = pop (stack rt) in
           case parseTokens (lexString text) of
             Inl e \<Rightarrow> Some (Inl e)
           | Inr body \<Rightarrow>
               evaluateWords limit fuel depth words
                 (rt\<lparr>stack := s1, dictionary := (dictionary rt)(word_value word \<mapsto> body)\<rparr>))
      | CALL \<Rightarrow>
          (case builtins (word_value word) of
             Some (Native f) \<Rightarrow>
               (case f (stack rt) of
                  Inl e \<Rightarrow> Some (Inl (Raised e))
                | Inr s1 \<Rightarrow> evaluateWords limit fuel depth words (rt\<lparr>stack := s1\<rparr>))
           | Some BuiltinEval \<Rightarrow>
               (let (item, s1) = pop (stack rt) in
                case parseTokens (lexString item) of
                  Inl e \<Rightarrow> Some (Inl e)
                | Inr program \<Rightarrow>
                    (if limit \<le> depth then Some (Inl (Raised RecursionError))
                     else case evaluateWords limit fuel (Suc depth) program (rt\<lparr>stack := s1\<rparr>) of
                            None \<Rightarrow> None
                          | Some (Inl e) \<Rightarrow> Some (Inl e)
                          | Some (Inr rt1) \<Rightarrow> evaluateWords limit fuel depth words rt1))
           | None \<Rightarrow>
               (case dictionary rt (word_value word) of
                  Some body \<Rightarrow> evaluateWords limit fuel depth (body @ words) rt
                | None \<Rightarrow> evaluateWords limit fuel depth words rt)))"

text \<open>The run of a word sequence ends with the result \<open>r\<close>, for some amount of fuel.\<close>

definition evaluates ::
  "nat \<Rightarrow> nat \<Rightarrow> Word list \<Rightarrow> runtime \<Rightarrow> failure + runtime \<Rightarrow> bool" where
  "evaluates limit depth words rt r = (\<exists>fuel. evaluateWords limit fuel depth words rt = Some r)"

text \<open>
  \<^verbatim>\<open>main\<close>: the words of the input lines are evaluated on the stack of the arguments,
  with an empty dictionary. RecursionError alone is caught, and prints the fixed
  message; the run that returns prints the stack; every other exception ends the process.
\<close>

datatype outcome = Printed "string list" | RecursionLimit | Uncaught failure

definition main ::
  "nat \<Rightarrow> nat \<Rightarrow> string list \<Rightarrow> string list \<Rightarrow> outcome option" where
  "main limit fuel lines argv =
     (case parseTokens (lexLines lines) of
        Inl e \<Rightarrow> Some (Uncaught e)
      | Inr words \<Rightarrow>
          (case evaluateWords limit fuel 0 words \<lparr>stack = argv, dictionary = Map.empty\<rparr> of
             None \<Rightarrow> None
           | Some (Inl (Raised RecursionError)) \<Rightarrow> Some RecursionLimit
           | Some (Inl e) \<Rightarrow> Some (Uncaught e)
           | Some (Inr rt) \<Rightarrow> Some (Printed (stack rt))))"

section \<open>Properties of the stack and the stack builtins\<close>

lemma push_all_append: "push_all items s = s @ items"
  unfolding push_all_def by (induction items arbitrary: s) (simp_all add: push_def)

lemma pop_n_eq:
  "pop_n n s =
     (rev (drop (length s - n) s) @ replicate (n - length s) '''', take (length s - n) s)"
proof (induction n arbitrary: s)
  case 0
  then show ?case by simp
next
  case (Suc n)
  show ?case
  proof (cases "s = []")
    case True
    then show ?thesis using Suc[of "[]"] by (simp add: pop_def)
  next
    case False
    then obtain ys y where s: "s = ys @ [y]" by (metis rev_exhaust)
    have "drop (length ys - n) ys @ [y] = drop (Suc (length ys) - Suc n) (ys @ [y])"
      by simp
    then show ?thesis using Suc[of ys] s
      by (simp add: pop_def Suc_diff_le take_butlast)
  qed
qed

lemma rot_on_full_top:
  assumes "0 < n" "length vs = n"
  shows "createRotBuiltin n (base @ vs) = Inr (base @ tl vs @ [hd vs])"
proof -
  from assms obtain v rest where vs: "vs = v # rest" by (cases vs) auto
  show ?thesis using assms vs
    by (simp add: createRotBuiltin_def pop_n_eq push_all_append)
qed

text \<open>
  Claim C9. \<^verbatim>\<open>pop\<close> removes and returns the top element when there is one; on the
  empty stack it returns the empty string and leaves the stack empty, without raising.
  On a fresh stack, \<^verbatim>\<open>drop\<close> and then \<^verbatim>\<open>drop\<close> again returns normally with the
  empty stack.
\<close>

theorem pop_total_and_drop_drop_empty:
  "(s \<noteq> [] \<longrightarrow> pop s = (last s, butlast s))
   \<and> pop (base @ [x]) = (x, base)
   \<and> pop [] = ('''', [])
   \<and> builtinDrop [] = Inr []
   \<and> (case builtinDrop [] of Inl e \<Rightarrow> Inl e | Inr s1 \<Rightarrow> builtinDrop s1) = Inr []"
  by (simp add: pop_def builtinDrop_def)

theorem pop_total_and_drop_drop_empty_witness:
  "pop [''a'', ''b''] = (''b'', [''a''])
   \<and> (case builtinDrop [] of Inl e \<Rightarrow> Inl e | Inr s1 \<Rightarrow> builtinDrop s1) = Inr []"
  using pop_total_and_drop_drop_empty [of "[''a'', ''b'']" "[''a'']" "''b''"] by simp

text \<open>
  Claim C8. For \<open>n\<close> in 3..9 and a stack whose top \<open>n\<close> elements are \<open>vs\<close> (deepest
  first), \<^verbatim>\<open>rotN\<close> moves the deepest of them, \<open>hd vs\<close>, to the top; the other \<open>n - 1\<close>
  keep their order and move one position down. The stack below them is untouched.
\<close>

theorem rot_moves_deepest_to_top:
  assumes "3 \<le> n" "n \<le> 9" "length vs = n"
  shows "createRotBuiltin n (base @ vs) = Inr (base @ tl vs @ [hd vs])"
  using assms rot_on_full_top [of n vs base] by simp

theorem rot_moves_deepest_to_top_witness:
  "createRotBuiltin 3 [''X'', ''Y'', ''Z''] = Inr [''Y'', ''Z'', ''X'']"
  using rot_moves_deepest_to_top [of 3 "[''X'', ''Y'', ''Z'']" "[]"] by simp

text \<open>
  Claim C10. For \<open>n\<close> in 3..9 and a stack of \<open>k < n\<close> elements, \<^verbatim>\<open>rotN\<close> leaves exactly
  \<open>n\<close> elements: the \<open>n - k\<close> underflow pops give empty strings, which take part in the
  rotation as if they had been below the \<open>k\<close> values. The result is what rotating the
  stack padded at the bottom with \<open>n - k\<close> empty strings gives.
\<close>

theorem rot_underfull_grows_to_n:
  assumes "3 \<le> n" "n \<le> 9" "length s = k" "k < n"
  shows "createRotBuiltin n s = Inr (replicate (n - k - 1) '''' @ s @ [''''])
         \<and> createRotBuiltin n s = createRotBuiltin n (replicate (n - k) '''' @ s)
         \<and> (\<exists>s'. createRotBuiltin n s = Inr s' \<and> length s' = n)"
proof -
  from assms obtain m where m: "n - k = Suc m" by (metis Suc_diff_Suc)
  have r: "replicate (Suc m) ([]::string) = replicate m [] @ [[]]"
    by (simp add: replicate_append_same)
  have a: "createRotBuiltin n s = Inr (replicate (n - k - 1) '''' @ s @ [''''])"
    using assms m
    by (simp add: createRotBuiltin_def pop_n_eq push_all_append r butlast_append
        del: replicate_Suc)
  have b: "createRotBuiltin n (replicate (n - k) '''' @ s)
             = Inr (replicate (n - k - 1) '''' @ s @ [''''])"
    using assms m rot_on_full_top [of n "replicate (n - k) '''' @ s" "[]"] by simp
  from a b assms show ?thesis by simp
qed

theorem rot_underfull_grows_to_n_witness:
  "createRotBuiltin 3 [''X''] = Inr ['''', ''X'', '''']"
  using rot_underfull_grows_to_n [of 3 "[''X'']" 1] by simp

text \<open>
  Claim C6, as stated: for every stack, also the empty one, \<^verbatim>\<open>dupe\<close> followed by
  \<^verbatim>\<open>drop\<close> leaves the stack as it was. It fails on the empty stack: \<^verbatim>\<open>dupe\<close> pops
  the empty string by underflow and pushes it twice, so one empty string stays.
\<close>

theorem dupe_drop_empty_stack_counterexample:
  "(case builtinDupe [] of Inl e \<Rightarrow> Inl e | Inr s1 \<Rightarrow> builtinDrop s1) = Inr ['''']
   \<and> (case builtinDupe [] of Inl e \<Rightarrow> Inl e | Inr s1 \<Rightarrow> builtinDrop s1) \<noteq> Inr []"
  by (simp add: builtinDupe_def builtinDrop_def pop_def push_def butlast_append)

text \<open>
  Claim C6, amended: on every non-empty stack \<^verbatim>\<open>dupe\<close> followed by \<^verbatim>\<open>drop\<close> returns
  the stack unchanged; on the empty stack it returns the stack holding one empty string.
\<close>

theorem dupe_drop_noop_on_nonempty:
  "(s \<noteq> [] \<longrightarrow>
      (case builtinDupe s of Inl e \<Rightarrow> Inl e | Inr s1 \<Rightarrow> builtinDrop s1) = Inr s)
   \<and> (s = [] \<longrightarrow>
      (case builtinDupe s of Inl e \<Rightarrow> Inl e | Inr s1 \<Rightarrow> builtinDrop s1) = Inr [''''])"
  by (simp add: builtinDupe_def builtinDrop_def pop_def push_def butlast_append)

theorem dupe_drop_noop_on_nonempty_witness:
  "(case builtinDupe [''a'', ''b''] of Inl e \<Rightarrow> Inl e | Inr s1 \<Rightarrow> builtinDrop s1)
     = Inr [''a'', ''b'']"
  using dupe_drop_noop_on_nonempty [of "[''a'', ''b'']"] by simp

section \<open>Properties of the evaluator\<close>

lemma evaluateWords_fuel_mono:
  "evaluateWords limit fuel depth ws rt = Some r \<Longrightarrow>
   evaluateWords limit (fuel + k) depth ws rt = Some r"
proof (induction limit fuel depth ws rt arbitrary: r rule: evaluateWords.induct)
  case (1 limit fuel depth rt)
  then show ?case by simp
next
  case (2 limit depth word words rt)
  then show ?case by simp
next
  case (3 limit fuel depth word words rt)
  show ?case
  proof (cases "word_type word")
    case STRING
    with 3 show ?thesis by simp
  next
    case DEFINE
    with 3 show ?thesis
      by (auto split: prod.splits sum.splits)
  next
    case CALL
    show ?thesis
    proof (cases "builtins (word_value word)")
      case None
      with 3 CALL show ?thesis by (auto split: option.splits)
    next
      case (Some b)
      show ?thesis
      proof (cases b)
        case (Native f)
        with 3 CALL Some show ?thesis by (auto split: sum.splits)
      next
        case BuiltinEval
        with 3 CALL Some show ?thesis
          by (auto split: prod.splits sum.splits option.splits if_splits)
      qed
    qed
  qed
qed


lemma evaluates_cons:
  "evaluates limit depth (w # ws) rt r =
     (\<exists>fuel. evaluateWords limit (Suc fuel) depth (w # ws) rt = Some r)"
proof
  assume "evaluates limit depth (w # ws) rt r"
  then obtain fuel where f: "evaluateWords limit fuel depth (w # ws) rt = Some r"
    by (auto simp: evaluates_def)
  then show "\<exists>fuel. evaluateWords limit (Suc fuel) depth (w # ws) rt = Some r"
    by (cases fuel) auto
next
  assume "\<exists>fuel. evaluateWords limit (Suc fuel) depth (w # ws) rt = Some r"
  then show "evaluates limit depth (w # ws) rt r"
    unfolding evaluates_def by blast
qed

lemma evaluates_call_native:
  assumes "builtins name = Some (Native f)"
  shows "evaluates limit depth (\<lparr>word_type = CALL, word_value = name\<rparr> # rest) rt r =
           (case f (stack rt) of
              Inl e \<Rightarrow> r = Inl (Raised e)
            | Inr s1 \<Rightarrow> evaluates limit depth rest (rt\<lparr>stack := s1\<rparr>) r)"
  using assms unfolding evaluates_cons
  by (auto simp: evaluates_def split: sum.splits)

lemma evaluates_call_defined:
  assumes "builtins name = None" "dictionary rt name = Some body"
  shows "evaluates limit depth (\<lparr>word_type = CALL, word_value = name\<rparr> # rest) rt r =
           evaluates limit depth (body @ rest) rt r"
  using assms unfolding evaluates_cons by (simp add: evaluates_def)

lemma evaluates_call_undefined:
  assumes "builtins name = None" "dictionary rt name = None"
  shows "evaluates limit depth (\<lparr>word_type = CALL, word_value = name\<rparr> # rest) rt r =
           evaluates limit depth rest rt r"
  using assms unfolding evaluates_cons by (simp add: evaluates_def)

lemma evaluates_seq:
  assumes "evaluateWords limit n1 d1 ws1 rt1 = Some r1"
      and "evaluateWords limit n2 d2 ws2 rt2 = Some r2"
  shows "\<exists>n. evaluateWords limit n d1 ws1 rt1 = Some r1
           \<and> evaluateWords limit n d2 ws2 rt2 = Some r2"
proof -
  have "evaluateWords limit (n1 + n2) d1 ws1 rt1 = Some r1"
    using assms(1) by (rule evaluateWords_fuel_mono)
  moreover have "evaluateWords limit (n2 + n1) d2 ws2 rt2 = Some r2"
    using assms(2) by (rule evaluateWords_fuel_mono)
  ultimately show ?thesis by (metis add.commute)
qed

lemma evaluates_call_eval:
  assumes "builtins name = Some BuiltinEval"
  shows "evaluates limit depth (\<lparr>word_type = CALL, word_value = name\<rparr> # rest) rt r =
           (case parseTokens (lexString (fst (pop (stack rt)))) of
              Inl e \<Rightarrow> r = Inl e
            | Inr program \<Rightarrow>
                (if limit \<le> depth then r = Inl (Raised RecursionError)
                 else \<exists>r1. evaluates limit (Suc depth) program
                              (rt\<lparr>stack := snd (pop (stack rt))\<rparr>) r1
                        \<and> (case r1 of
                             Inl e \<Rightarrow> r = Inl e
                           | Inr rt1 \<Rightarrow> evaluates limit depth rest rt1 r)))"
proof (cases "parseTokens (lexString (fst (pop (stack rt))))")
  case (Inl e)
  with assms show ?thesis unfolding evaluates_cons
    by (auto simp: split_beta)
next
  case (Inr program)
  show ?thesis
  proof (cases "limit \<le> depth")
    case True
    with assms Inr show ?thesis unfolding evaluates_cons
      by (auto simp: split_beta)
  next
    case False
    let ?rt = "rt\<lparr>stack := snd (pop (stack rt))\<rparr>"
    have step: "evaluateWords limit (Suc fuel) depth
                  (\<lparr>word_type = CALL, word_value = name\<rparr> # rest) rt =
                (case evaluateWords limit fuel (Suc depth) program ?rt of
                   None \<Rightarrow> None
                 | Some (Inl e) \<Rightarrow> Some (Inl e)
                 | Some (Inr rt1) \<Rightarrow> evaluateWords limit fuel depth rest rt1)" for fuel
      using assms Inr False by (simp add: split_beta)
    show ?thesis
    proof
      assume "evaluates limit depth (\<lparr>word_type = CALL, word_value = name\<rparr> # rest) rt r"
      then obtain fuel where
        "evaluateWords limit (Suc fuel) depth
           (\<lparr>word_type = CALL, word_value = name\<rparr> # rest) rt = Some r"
        unfolding evaluates_cons by blast
      with step[of fuel] have
        "\<exists>r1. evaluateWords limit fuel (Suc depth) program ?rt = Some r1
           \<and> (case r1 of Inl e \<Rightarrow> r = Inl e
               | Inr rt1 \<Rightarrow> evaluateWords limit fuel depth rest rt1 = Some r)"
        by (auto split: option.splits sum.splits)
      then show "case parseTokens (lexString (fst (pop (stack rt)))) of
              Inl e \<Rightarrow> r = Inl e
            | Inr program \<Rightarrow>
                (if limit \<le> depth then r = Inl (Raised RecursionError)
                 else \<exists>r1. evaluates limit (Suc depth) program
                              (rt\<lparr>stack := snd (pop (stack rt))\<rparr>) r1
                        \<and> (case r1 of
                             Inl e \<Rightarrow> r = Inl e
                           | Inr rt1 \<Rightarrow> evaluates limit depth rest rt1 r))"
        using Inr False by (auto simp: evaluates_def split: sum.splits)
    next
      assume "case parseTokens (lexString (fst (pop (stack rt)))) of
              Inl e \<Rightarrow> r = Inl e
            | Inr program \<Rightarrow>
                (if limit \<le> depth then r = Inl (Raised RecursionError)
                 else \<exists>r1. evaluates limit (Suc depth) program
                              (rt\<lparr>stack := snd (pop (stack rt))\<rparr>) r1
                        \<and> (case r1 of
                             Inl e \<Rightarrow> r = Inl e
                           | Inr rt1 \<Rightarrow> evaluates limit depth rest rt1 r))"
      with Inr False obtain r1 where
        r1: "evaluates limit (Suc depth) program ?rt r1"
        and k: "case r1 of Inl e \<Rightarrow> r = Inl e | Inr rt1 \<Rightarrow> evaluates limit depth rest rt1 r"
        by auto
      from r1 obtain n1 where n1: "evaluateWords limit n1 (Suc depth) program ?rt = Some r1"
        by (auto simp: evaluates_def)
      show "evaluates limit depth (\<lparr>word_type = CALL, word_value = name\<rparr> # rest) rt r"
      proof (cases r1)
        case (Inl e)
        with k n1 step[of n1] show ?thesis unfolding evaluates_cons by auto
      next
        case (Inr rt1)
        with k obtain n2 where "evaluateWords limit n2 depth rest rt1 = Some r"
          by (auto simp: evaluates_def)
        with n1 obtain n where
          "evaluateWords limit n (Suc depth) program ?rt = Some r1"
          "evaluateWords limit n depth rest rt1 = Some r"
          using evaluates_seq by blast
        with Inr step[of n] show ?thesis unfolding evaluates_cons by auto
      qed
    qed
  qed
qed

lemma plus_4_4: "createBinaryOpBuiltin (arith_op num_add) [''4'', ''4''] = Inr [''8'']"
  by code_simp

text \<open>
  Claim C1. A \<^verbatim>\<open>Call(name)\<close> word looks \<open>name\<close> up in the table of builtins first: a
  builtin is run on the stack, whatever the dictionary binds \<open>name\<close> to (an exception of
  the builtin would end the run; \<^verbatim>\<open>eval\<close> runs the popped text as a nested program);
  otherwise a word of the dictionary is put in front of the remaining words; a name in
  neither table is skipped, and the run goes on with the next word on the same stack and
  dictionary.
\<close>

theorem call_resolves_builtin_then_dictionary:
  "(builtins name = Some (Native f) \<longrightarrow>
      evaluates limit depth (\<lparr>word_type = CALL, word_value = name\<rparr> # rest) rt r =
        (case f (stack rt) of
           Inl e \<Rightarrow> r = Inl (Raised e)
         | Inr s1 \<Rightarrow> evaluates limit depth rest (rt\<lparr>stack := s1\<rparr>) r))
   \<and> (builtins name = Some BuiltinEval \<longrightarrow>
      evaluates limit depth (\<lparr>word_type = CALL, word_value = name\<rparr> # rest) rt r =
        (case parseTokens (lexString (fst (pop (stack rt)))) of
           Inl e \<Rightarrow> r = Inl e
         | Inr program \<Rightarrow>
             (if limit \<le> depth then r = Inl (Raised RecursionError)
              else \<exists>r1. evaluates limit (Suc depth) program
                           (rt\<lparr>stack := snd (pop (stack rt))\<rparr>) r1
                     \<and> (case r1 of
                          Inl e \<Rightarrow> r = Inl e
                        | Inr rt1 \<Rightarrow> evaluates limit depth rest rt1 r))))
   \<and> (builtins name = None \<and> dictionary rt name = Some body \<longrightarrow>
      evaluates limit depth (\<lparr>word_type = CALL, word_value = name\<rparr> # rest) rt r =
        evaluates limit depth (body @ rest) rt r)
   \<and> (builtins name = None \<and> dictionary rt name = None \<longrightarrow>
      evaluates limit depth (\<lparr>word_type = CALL, word_value = name\<rparr> # rest) rt r =
        evaluates limit depth rest rt r)"
  using evaluates_call_native [of name f limit depth rest rt r]
        evaluates_call_eval [of name limit depth rest rt r]
        evaluates_call_defined [of name rt body limit depth rest r]
        evaluates_call_undefined [of name rt limit depth rest r]
  by blast

theorem call_resolves_builtin_then_dictionary_witness:
  "evaluates 10 0 [\<lparr>word_type = CALL, word_value = ''dupe''\<rparr>]
     \<lparr>stack = [''a''], dictionary = [''dupe'' \<mapsto> []]\<rparr>
     (Inr \<lparr>stack = [''a'', ''a''], dictionary = [''dupe'' \<mapsto> []]\<rparr>)
   \<and> evaluates 10 0 [\<lparr>word_type = CALL, word_value = ''nope''\<rparr>]
     \<lparr>stack = [''a''], dictionary = Map.empty\<rparr>
     (Inr \<lparr>stack = [''a''], dictionary = Map.empty\<rparr>)"
proof -
  have nil: "evaluates 10 0 [] rt (Inr rt)" for rt
    by (simp add: evaluates_def)
  have b1: "builtins ''dupe'' = Some (Native builtinDupe)"
    by (simp add: builtins_def)
  have b2: "builtins ''nope'' = None"
    by (simp add: builtins_def)
  have d: "builtinDupe [''a''] = Inr [''a'', ''a'']"
    by (simp add: builtinDupe_def pop_def push_def)
  show ?thesis
    using call_resolves_builtin_then_dictionary
            [of "''dupe''" builtinDupe 10 0 "[]"
                "\<lparr>stack = [''a''], dictionary = [''dupe'' \<mapsto> []]\<rparr>"
                "Inr \<lparr>stack = [''a'', ''a''], dictionary = [''dupe'' \<mapsto> []]\<rparr>"]
          call_resolves_builtin_then_dictionary
            [of "''nope''" builtinDupe 10 0 "[]"
                "\<lparr>stack = [''a''], dictionary = Map.empty\<rparr>"
                "Inr \<lparr>stack = [''a''], dictionary = Map.empty\<rparr>"]
          nil b1 b2 d
    by simp
qed

text \<open>
  Claim C2. For a name that is no builtin and that the dictionary binds to the words
  \<open>ws\<close>, the run of the single word \<^verbatim>\<open>Call(name)\<close> ends with the result \<open>r\<close> (a final
  stack and dictionary, or an exception) exactly when the run of \<open>ws\<close> from the same
  stack and dictionary does; it takes one step more, so the one runs forever exactly
  when the other does.
\<close>

theorem call_of_defined_word_is_its_body:
  assumes "builtins name = None" and "dictionary rt name = Some ws"
  shows "(\<forall>r. evaluates limit depth [\<lparr>word_type = CALL, word_value = name\<rparr>] rt r =
              evaluates limit depth ws rt r)
         \<and> evaluateWords limit (Suc fuel) depth [\<lparr>word_type = CALL, word_value = name\<rparr>] rt =
             evaluateWords limit fuel depth ws rt"
  using assms evaluates_call_defined [of name rt ws limit depth "[]"] by simp

theorem call_of_defined_word_is_its_body_witness:
  "evaluateWords 10 3 0 [\<lparr>word_type = CALL, word_value = ''double''\<rparr>]
     \<lparr>stack = [''4''],
      dictionary = [''double'' \<mapsto> [\<lparr>word_type = CALL, word_value = ''dupe''\<rparr>,
                                  \<lparr>word_type = CALL, word_value = ''+''\<rparr>]]\<rparr>
   = Some (Inr \<lparr>stack = [''8''],
      dictionary = [''double'' \<mapsto> [\<lparr>word_type = CALL, word_value = ''dupe''\<rparr>,
                                  \<lparr>word_type = CALL, word_value = ''+''\<rparr>]]\<rparr>)"
proof -
  have b: "builtins ''double'' = None"
    by (simp add: builtins_def)
  have body: "evaluateWords 10 2 0
      [\<lparr>word_type = CALL, word_value = ''dupe''\<rparr>, \<lparr>word_type = CALL, word_value = ''+''\<rparr>]
      \<lparr>stack = [''4''],
       dictionary = [''double'' \<mapsto> [\<lparr>word_type = CALL, word_value = ''dupe''\<rparr>,
                                   \<lparr>word_type = CALL, word_value = ''+''\<rparr>]]\<rparr>
    = Some (Inr \<lparr>stack = [''8''],
       dictionary = [''double'' \<mapsto> [\<lparr>word_type = CALL, word_value = ''dupe''\<rparr>,
                                   \<lparr>word_type = CALL, word_value = ''+''\<rparr>]]\<rparr>)"
    by (simp add: eval_nat_numeral builtins_def plus_4_4 builtinDupe_def pop_def push_def)
  show ?thesis
    using call_of_defined_word_is_its_body
            [of "''double''"
                "\<lparr>stack = [''4''],
                  dictionary = [''double'' \<mapsto> [\<lparr>word_type = CALL, word_value = ''dupe''\<rparr>,
                                              \<lparr>word_type = CALL, word_value = ''+''\<rparr>]]\<rparr>"
                "[\<lparr>word_type = CALL, word_value = ''dupe''\<rparr>,
                  \<lparr>word_type = CALL, word_value = ''+''\<rparr>]"
                10 0 2]
          b body
    by (simp add: eval_nat_numeral)
qed

section \<open>Properties of the builtins and of the parser\<close>

lemma rot_never_raises: "0 < n \<Longrightarrow> \<exists>s'. createRotBuiltin n s = Inr s'"
  by (cases n) (auto simp: createRotBuiltin_def split: prod.splits)

lemma unary_shape:
  "createUnaryOpBuiltin f s =
     Inr (butlast s @ [case f (fst (pop s)) of Inl e \<Rightarrow> ''Undefined'' | Inr v \<Rightarrow> v])"
  by (simp add: createUnaryOpBuiltin_def pop_def push_def)

lemma binary_shape:
  "createBinaryOpBuiltin g s =
     Inr (butlast (butlast s) @
          [case g (fst (pop (snd (pop s)))) (fst (pop s)) of
             Inl e \<Rightarrow> ''Undefined'' | Inr v \<Rightarrow> v])"
  by (simp add: createBinaryOpBuiltin_def pop_def push_def split_beta)

lemma trinary_shape:
  "createTrinaryOpBuiltin h s =
     Inr (butlast (butlast (butlast s)) @
          [case h (fst (pop (snd (pop (snd (pop s)))))) (fst (pop (snd (pop s)))) (fst (pop s)) of
             Inl e \<Rightarrow> ''Undefined'' | Inr v \<Rightarrow> v])"
  by (simp add: createTrinaryOpBuiltin_def pop_def push_def split_beta)

lemma native_never_raises:
  "builtins name = Some (Native b) \<Longrightarrow> \<exists>s'. b s = Inr s'"
  unfolding builtins_def
  by (auto simp: unary_shape binary_shape trinary_shape rot_never_raises
        builtinDrop_def builtinDupe_def builtinSwap_def split_beta
      split: if_splits)

text \<open>
  Claim C4. A builtin made by one of the three wrappers pops its one, two or three
  operands, gives them to its function in the order they were pushed, and pushes one
  string: the result of the function, or the string \<^verbatim>\<open>"Undefined"\<close> when the function
  raises, whatever the exception. The wrapper returns normally on every stack, also on
  one with too few elements, and leaves one string where the operands were. No builtin
  of the table other than \<^verbatim>\<open>eval\<close> ever raises.
\<close>

theorem builtin_failures_become_Undefined:
  "createUnaryOpBuiltin f (base @ [x]) =
     Inr (base @ [case f x of Inl e \<Rightarrow> ''Undefined'' | Inr v \<Rightarrow> v])
   \<and> createBinaryOpBuiltin g (base @ [x, y]) =
     Inr (base @ [case g x y of Inl e \<Rightarrow> ''Undefined'' | Inr v \<Rightarrow> v])
   \<and> createTrinaryOpBuiltin h (base @ [x, y, z]) =
     Inr (base @ [case h x y z of Inl e \<Rightarrow> ''Undefined'' | Inr v \<Rightarrow> v])
   \<and> (\<exists>s'. createUnaryOpBuiltin f s = Inr s' \<and> length s' = length s - 1 + 1)
   \<and> (\<exists>s'. createBinaryOpBuiltin g s = Inr s' \<and> length s' = length s - 2 + 1)
   \<and> (\<exists>s'. createTrinaryOpBuiltin h s = Inr s' \<and> length s' = length s - 3 + 1)
   \<and> (builtins name = Some (Native b) \<longrightarrow> (\<exists>s'. b s = Inr s'))"
proof -
  have u: "createUnaryOpBuiltin f (base @ [x]) =
     Inr (base @ [case f x of Inl e \<Rightarrow> ''Undefined'' | Inr v \<Rightarrow> v])"
    by (simp add: createUnaryOpBuiltin_def pop_def push_def)
  have b: "createBinaryOpBuiltin g (base @ [x, y]) =
     Inr (base @ [case g x y of Inl e \<Rightarrow> ''Undefined'' | Inr v \<Rightarrow> v])"
    by (simp add: createBinaryOpBuiltin_def pop_def push_def butlast_append)
  have t: "createTrinaryOpBuiltin h (base @ [x, y, z]) =
     Inr (base @ [case h x y z of Inl e \<Rightarrow> ''Undefined'' | Inr v \<Rightarrow> v])"
    by (simp add: createTrinaryOpBuiltin_def pop_def push_def butlast_append)
  have lu: "\<exists>s'. createUnaryOpBuiltin f s = Inr s' \<and> length s' = length s - 1 + 1"
    by (simp add: unary_shape)
  have lb: "\<exists>s'. createBinaryOpBuiltin g s = Inr s' \<and> length s' = length s - 2 + 1"
    by (simp add: binary_shape)
  have lt: "\<exists>s'. createTrinaryOpBuiltin h s = Inr s' \<and> length s' = length s - 3 + 1"
    by (simp add: trinary_shape)
  from u b t lu lb lt native_never_raises [of name b s] show ?thesis by blast
qed

lemma abc_plus_1: "arith_op num_add ''abc'' ''1'' = Inl ValueError"
  by code_simp

theorem builtin_failures_become_Undefined_witness:
  "builtins ''+'' = Some (Native (createBinaryOpBuiltin (arith_op num_add)))
   \<and> createBinaryOpBuiltin (arith_op num_add) [''abc'', ''1''] = Inr [''Undefined'']"
  using builtin_failures_become_Undefined
          [where g = "arith_op num_add" and base = "[]" and x = "''abc''" and y = "''1''"
             and name = "''+''" and b = "createBinaryOpBuiltin (arith_op num_add)"
             and s = "[]"]
        abc_plus_1
  by (simp add: builtins_def)

text \<open>
  Claim C5 fails on the code. The tokenizer accepts the line \<^verbatim>\<open>"\x"\<close> (a quote, a
  backslash, \<^verbatim>\<open>x\<close>, a quote) as one quoted token; \<^verbatim>\<open>parseTokens\<close> gives its text to
  the host's codec, which raises UnicodeDecodeError on the truncated escape; nothing
  catches it, \<^verbatim>\<open>main\<close> catches RecursionError only, so the process ends with an
  exception that is none of the four categories of the claim.
\<close>

theorem quoted_truncated_hex_escape_aborts:
  "lexLines [[CHR 0x22, CHR 0x5C, CHR ''x'', CHR 0x22]] = [([], [], [CHR 0x5C, CHR ''x''])]
   \<and> parseTokens [([], [], [CHR 0x5C, CHR ''x''])] = Inl (Raised UnicodeDecodeError)
   \<and> main limit fuel [[CHR 0x22, CHR 0x5C, CHR ''x'', CHR 0x22]] argv
       = Some (Uncaught (Raised UnicodeDecodeError))"
proof -
  have l: "lexLines [[CHR 0x22, CHR 0x5C, CHR ''x'', CHR 0x22]] = [([], [], [CHR 0x5C, CHR ''x''])]"
    by (simp add: lexLines_def match_token_def match_body_def is_bare_def)
  have p: "parseTokens [([], [], [CHR 0x5C, CHR ''x''])] = Inl (Raised UnicodeDecodeError)"
    by (simp add: token_word_def token_value_def utf8_bytes_def simple_escape_def
        is_octal_def take_hex_def)
  from l p show ?thesis by (simp add: main_def)
qed

section \<open>Properties of the numeric and string builtins\<close>

lemma quotient_of_of_int: "quotient_of (of_int a) = (a, 1)"
  by (simp add: of_int_rat quotient_of_Fract)

lemma round_half_even_of_int: "round_half_even (of_int k) = k"
  by (simp add: round_half_even_def)

lemma floor_log2_le_bitlen: "floor_log2 (of_int a) \<le> bitlen a - 1"
proof -
  have "bitlen 1 = 1" by (simp add: bitlen_alt_def)
  then show ?thesis
    by (simp add: floor_log2_def quotient_of_of_int Let_def)
qed

lemma bitlen_le_53:
  assumes "0 < a" "a < 2 ^ 53"
  shows "bitlen a \<le> 53"
proof (rule ccontr)
  assume "\<not> bitlen a \<le> 53"
  then have "53 \<le> nat (bitlen a - 1)" by simp
  then have "(2::int) ^ 53 \<le> 2 ^ nat (bitlen a - 1)"
    by (rule power_increasing) simp
  also have "\<dots> \<le> a" using bitlen_bounds [OF assms(1)] by simp
  finally show False using assms(2) by simp
qed

text \<open>An integer below \<open>2 ^ 53\<close> is a float: rounding leaves it as it is.\<close>

lemma round_mag_int:
  assumes "0 < a" "a < 2 ^ 53"
  shows "round_mag (of_int a) = Some (of_int a)"
proof -
  define p where "p = max (floor_log2 (of_int a) - 52) (- 1074)"
  have "floor_log2 (of_int a) \<le> 52"
    using floor_log2_le_bitlen [of a] bitlen_le_53 [OF assms] by simp
  then have p: "p \<le> 0" by (simp add: p_def)
  then have pw: "pow2 p = 1 / 2 ^ nat (- p)"
    by (cases "p = 0") (simp_all add: pow2_def)
  have q: "(of_int a :: rat) / pow2 p = of_int (a * 2 ^ nat (- p))"
    by (simp add: pw)
  have r: "of_int (round_half_even (of_int a / pow2 p)) * pow2 p = (of_int a :: rat)"
    unfolding q round_half_even_of_int by (simp add: pw)
  have "(of_int a :: rat) < 2 ^ 53" using assms(2)
    by (metis of_int_less_numeral_power_cancel_iff)
  also have "\<dots> \<le> 2 ^ 1024" by (rule power_increasing) simp_all
  finally have "\<not> 2 ^ 1024 \<le> (of_int a :: rat)" by simp
  then show ?thesis
    unfolding round_mag_def Let_def p_def [symmetric] r by simp
qed

lemma round_mag_3: "round_mag 3 = Some 3"
  using round_mag_int [of 3] by simp

lemma round_mag_1: "round_mag 1 = Some 1"
  using round_mag_int [of 1] by simp

lemma str2int_3: "str2int ''3'' = Inr 3"
  by (simp add: str2int_def float_of_str_def strip_def is_space_def lower_def
      floatnumber_of_def number_of_def is_digit_def digit_val_def nat_of_digits_def
      pow10_def float_round_def round_mag_3 int_of_float_def)

lemma str2int_minus_1: "str2int ''-1'' = Inr (- 1)"
  by (simp add: str2int_def float_of_str_def strip_def is_space_def lower_def
      floatnumber_of_def number_of_def is_digit_def digit_val_def nat_of_digits_def
      pow10_def float_round_def round_mag_1 int_of_float_def)

lemma str2int_1: "str2int ''1'' = Inr 1"
  by (simp add: str2int_def float_of_str_def strip_def is_space_def lower_def
      floatnumber_of_def number_of_def is_digit_def digit_val_def nat_of_digits_def
      pow10_def float_round_def round_mag_1 int_of_float_def)

text \<open>
  Claim C7, as stated: whenever start is at least end, \<^verbatim>\<open>substr\<close> pushes the empty
  string. It fails for a negative end, which the host's slice counts from the end of the
  string: on \<^verbatim>\<open>"hello" "3" "-1"\<close> the start 3 is above the end -1 and the result is
  \<^verbatim>\<open>"l"\<close>.
\<close>

theorem substr_negative_end_counterexample:
  "str2int ''3'' = Inr 3 \<and> str2int ''-1'' = Inr (- 1) \<and> (- 1 :: int) \<le> 3
   \<and> builtins ''substr'' = Some (Native (createTrinaryOpBuiltin substr_op))
   \<and> createTrinaryOpBuiltin substr_op [''hello'', ''3'', ''-1''] = Inr [''l'']"
  by (simp add: builtins_def createTrinaryOpBuiltin_def substr_op_def pop_def push_def
      str2int_3 str2int_minus_1 py_slice_def slice_index_def)

text \<open>
  Claim C7, amended. \<^verbatim>\<open>substr\<close> converts start and end with \<^verbatim>\<open>int(float(s))\<close>, which
  truncates a finite float toward zero. When both convert, to \<open>i\<close> and \<open>j\<close>, it pushes
  the host's slice \<^verbatim>\<open>string[i:j]\<close>, which never raises: a negative index counts from the
  end of the string, every index is then clamped to the range from 0 to the length, and
  the result is the characters from the clamped start up to the clamped end; it is empty
  when the clamped start is not below the clamped end, which is so whenever start is at
  least end and the two are both non-negative or both negative. When start or end does
  not convert, it pushes \<^verbatim>\<open>"Undefined"\<close>.
\<close>

theorem substr_is_host_slice:
  "(str2int start = Inr i \<and> str2int end' = Inr j \<longrightarrow>
      createTrinaryOpBuiltin substr_op (base @ [string, start, end'])
        = Inr (base @ [py_slice string i j]))
   \<and> (str2int start = Inl e \<or> str2int end' = Inl e \<longrightarrow>
      createTrinaryOpBuiltin substr_op (base @ [string, start, end'])
        = Inr (base @ [''Undefined'']))
   \<and> (float_of_str x = Inr (Finite neg m) \<longrightarrow>
      str2int x = Inr (if neg then - \<lfloor>m\<rfloor> else \<lfloor>m\<rfloor>))
   \<and> py_slice string i j =
       take (slice_index (length string) j - slice_index (length string) i)
         (drop (slice_index (length string) i) string)
   \<and> slice_index (length string) i \<le> length string
   \<and> (0 \<le> i \<longrightarrow> slice_index (length string) i = min (nat i) (length string))
   \<and> (i < 0 \<longrightarrow> slice_index (length string) i = nat (max (i + int (length string)) 0))
   \<and> (slice_index (length string) j \<le> slice_index (length string) i \<longrightarrow>
        py_slice string i j = [])
   \<and> (j \<le> i \<and> (0 \<le> j \<or> i < 0) \<longrightarrow> py_slice string i j = [])"
proof -
  have a: "str2int start = Inr i \<and> str2int end' = Inr j \<longrightarrow>
      createTrinaryOpBuiltin substr_op (base @ [string, start, end'])
        = Inr (base @ [py_slice string i j])"
    by (simp add: createTrinaryOpBuiltin_def substr_op_def pop_def push_def butlast_append)
  have b: "str2int start = Inl e \<or> str2int end' = Inl e \<longrightarrow>
      createTrinaryOpBuiltin substr_op (base @ [string, start, end'])
        = Inr (base @ [''Undefined''])"
    by (auto simp: createTrinaryOpBuiltin_def substr_op_def pop_def push_def butlast_append
        split: sum.splits)
  have c: "float_of_str x = Inr (Finite neg m) \<longrightarrow>
      str2int x = Inr (if neg then - \<lfloor>m\<rfloor> else \<lfloor>m\<rfloor>)"
    by (simp add: str2int_def int_of_float_def)
  have d: "j \<le> i \<and> (0 \<le> j \<or> i < 0) \<longrightarrow> py_slice string i j = []"
    by (auto simp: py_slice_def slice_index_def)
  have e: "py_slice string i j =
       take (slice_index (length string) j - slice_index (length string) i)
         (drop (slice_index (length string) i) string)"
    by (simp add: py_slice_def Let_def)
  have f: "slice_index (length string) i \<le> length string"
    by (auto simp: slice_index_def)
  have g: "0 \<le> i \<longrightarrow> slice_index (length string) i = min (nat i) (length string)"
    by (simp add: slice_index_def)
  have h: "i < 0 \<longrightarrow>
      slice_index (length string) i = nat (max (i + int (length string)) 0)"
    by (simp add: slice_index_def)
  have k: "slice_index (length string) j \<le> slice_index (length string) i \<longrightarrow>
        py_slice string i j = []"
    by (simp add: py_slice_def Let_def)
  from a b c d e f g h k show ?thesis by blast
qed

theorem substr_is_host_slice_witness:
  "createTrinaryOpBuiltin substr_op [''hello'', ''1'', ''3''] = Inr [''el'']
   \<and> createTrinaryOpBuiltin substr_op [''hello'', ''3'', ''1''] = Inr ['''']"
  using substr_is_host_slice [where start = "''1''" and end' = "''3''" and i = 1 and j = 3
          and base = "[]" and string = "''hello''"]
        substr_is_host_slice [where start = "''3''" and end' = "''1''" and i = 3 and j = 1
          and base = "[]" and string = "''hello''"]
        str2int_1 str2int_3
  by (simp add: py_slice_def slice_index_def)

section \<open>Properties of the arithmetic builtins\<close>













lemma round_mag_2: "round_mag 2 = Some 2"
  using round_mag_int [of 2] by simp









lemma str_of_nat_2: "str_of_nat 2 = ''2''"
  by code_simp

lemma str_of_nat_1: "str_of_nat 1 = ''1''"
  by code_simp

lemma str_of_nat_Suc_0: "str_of_nat (Suc 0) = ''1''"
  using str_of_nat_1 by simp





lemma floor_log10_2: "floor_log10 2 = 0"
  by (simp add: floor_log10_def str_of_nat_2 str_of_nat_Suc_0 pow10_def)

lemma digits_at_1_2: "digits_at (Suc 0) 2 = Some (2, 0)"
  by (simp add: digits_at_def floor_log10_2 pow10_def round_mag_2 Let_def)

lemma shortest_digits_2: "shortest_digits 2 = (2, 0)"
proof -
  have h1: "shortest_from (Suc 15) (Suc 0) 2 = (2, 0)"
    by (simp only: shortest_from.simps digits_at_1_2 option.simps)
  have h2: "shortest_from 16 1 2 = shortest_from (Suc 15) (Suc 0) 2" by simp
  show ?thesis unfolding shortest_digits_def using h2 h1 by (rule trans)
qed

lemma str_of_float_2: "str_of_float (Finite False 2) = ''2.0''"
  by (simp add: str_of_float_def repr_mag_def shortest_digits_2 str_of_nat_2
      strip_zeros_def format_digits_def)









lemma str2num_int: "int_of_str a = Inr x \<Longrightarrow> str2num a = Inr (PyInt x)"
  by (simp add: str2num_def)

lemma binary_on_two:
  "createBinaryOpBuiltin g (base @ [a, b]) =
     Inr (base @ [case g a b of Inl e \<Rightarrow> ''Undefined'' | Inr v \<Rightarrow> v])"
  by (simp add: createBinaryOpBuiltin_def pop_def push_def butlast_append)


text \<open>
  The true division of the host gives a float on two integers also when the quotient is
  an integer: \<^verbatim>\<open>"6" "3" /\<close> pushes \<^verbatim>\<open>"2.0"\<close>.
\<close>

lemma six_by_three:
  "createBinaryOpBuiltin (arith_op num_truediv) [''6'', ''3''] = Inr [''2.0'']"
proof -
  have a: "int_of_str ''6'' = Inr 6" by code_simp
  have b: "int_of_str ''3'' = Inr 3" by code_simp
  have "arith_op num_truediv ''6'' ''3'' = Inr ''2.0''"
    by (simp add: arith_op_def str2num_int [OF a] str2num_int [OF b] num_truediv_def
        float_round_def round_mag_2 str_of_num_def str_of_float_2)
  then show ?thesis
    using binary_on_two [of "arith_op num_truediv" "[]" "''6''" "''3''"] by simp
qed



end
